theory Spec2Isabelle
  imports Main "HOL-Library.Multiset"
begin

section \<open>Data model of package renderdiff\<close>

text \<open>
  Go strings and byte slices are sequences of bytes: \<^typ>\<open>string\<close>, a list of 8-bit
  characters. A \<^verbatim>\<open>[]byte\<close> field that may be \<^verbatim>\<open>nil\<close> is a \<^typ>\<open>string option\<close>,
  with \<^term>\<open>None\<close> for the nil slice and \<^term>\<open>Some []\<close> for an empty, non-nil slice.
\<close>

abbreviation (input) NL :: char where
  "NL \<equiv> CHR 0x0A"

type_synonym Environment = string

text \<open>\<^verbatim>\<open>appset.ComponentPath\<close>: the two fields the engine reads.\<close>

record ComponentPath =
  cpPath :: string
  cpClusterDir :: string

text \<open>\<^verbatim>\<open>ComponentDiff\<close> of diff.go.\<close>

record ComponentDiff =
  Path :: string
  ClusterDir :: string
  Env :: Environment
  BaseYAML :: "string option"
  HeadYAML :: "string option"
  Diff :: string
  Added :: int
  Removed :: int

text \<open>
  Go \<^verbatim>\<open>error\<close> values. \<^verbatim>\<open>External\<close> is an error handed back by a collaborator
  (a \<^verbatim>\<open>RepoBuilder\<close> or the diff library); the other constructors are the
  \<^verbatim>\<open>fmt.Errorf\<close> sites of engine.go, each wrapping its cause where the format has \<^verbatim>\<open>%w\<close>.
\<close>

datatype error =
    External string
  | BuildingOnHEAD string error
  | BuildingOnBase string error
  | NotOnEitherRef string
  | ComputingDiff string Environment error

text \<open>The message of an error, as \<^verbatim>\<open>err.Error()\<close> prints it.\<close>

fun Error :: "error \<Rightarrow> string" where
  "Error (External m) = m"
| "Error (BuildingOnHEAD p c) = ''building '' @ p @ '' on HEAD: '' @ Error c"
| "Error (BuildingOnBase p c) = ''building '' @ p @ '' on base: '' @ Error c"
| "Error (NotOnEitherRef p) = ''component '' @ p @ '' does not exist on either ref''"
| "Error (ComputingDiff p env c) = ''computing diff for '' @ p @ '' ('' @ env @ ''): '' @ Error c"

text \<open>\<^verbatim>\<open>errors.Unwrap\<close>: the cause a \<^verbatim>\<open>%w\<close> error wraps.\<close>

fun Unwrap :: "error \<Rightarrow> error option" where
  "Unwrap (External m) = None"
| "Unwrap (BuildingOnHEAD p c) = Some c"
| "Unwrap (BuildingOnBase p c) = Some c"
| "Unwrap (NotOnEitherRef p) = None"
| "Unwrap (ComputingDiff p env c) = Some c"

text \<open>
  The \<^verbatim>\<open>RepoBuilder\<close> interface: a read-only snapshot of the repository at one revision.
  Both operations are functions of the relative path. \<^verbatim>\<open>BuildKustomization\<close> returns
  the error, or the bytes (which may be the nil slice).
\<close>

record RepoBuilder =
  DirExists :: "string \<Rightarrow> bool"
  BuildKustomization :: "string \<Rightarrow> error + string option"

record Engine =
  head :: RepoBuilder
  base :: RepoBuilder
  concurrency :: int

text \<open>
  The diff library (go-difflib) is not part of the repository: the two functions that
  \<^verbatim>\<open>computeDiff\<close> calls are parameters of the model.
\<close>

record UnifiedDiff =
  SeqA :: "string list"
  SeqB :: "string list"
  FromFile :: string
  ToFile :: string
  Context :: int

record difflib =
  SplitLines :: "string \<Rightarrow> string list"
  GetUnifiedDiffString :: "UnifiedDiff \<Rightarrow> error + string"

record DiffResult =
  Diffs :: "ComponentDiff list"
  TotalAdded :: int
  TotalRemoved :: int

section \<open>diff.go\<close>

text \<open>\<^verbatim>\<open>string(b)\<close> for a byte slice: the nil slice converts to the empty string.\<close>

fun string_of :: "string option \<Rightarrow> string" where
  "string_of None = []"
| "string_of (Some b) = b"

text \<open>\<^verbatim>\<open>strings.Split(s, sep)\<close> for a separator of one byte.\<close>

fun Split :: "string \<Rightarrow> char \<Rightarrow> string list" where
  "Split [] sep = [[]]"
| "Split (c # cs) sep =
     (if c = sep then [] # Split cs sep
      else (case Split cs sep of
              [] \<Rightarrow> [[c]]
            | l # ls \<Rightarrow> (c # l) # ls))"

text \<open>\<^verbatim>\<open>strings.HasPrefix\<close>.\<close>

definition HasPrefix :: "string \<Rightarrow> string \<Rightarrow> bool" where
  "HasPrefix s p = (length p \<le> length s \<and> take (length p) s = p)"

text \<open>The loop of \<^verbatim>\<open>countStats\<close> over the lines, with its two counters.\<close>

fun countStats_loop :: "string list \<Rightarrow> int \<times> int \<Rightarrow> int \<times> int" where
  "countStats_loop [] (added, removed) = (added, removed)"
| "countStats_loop (line # rest) (added, removed) =
     (if length line = 0 then countStats_loop rest (added, removed)
      else if line ! 0 = CHR ''+'' then
        (if \<not> HasPrefix line ''+++'' then countStats_loop rest (added + 1, removed)
         else countStats_loop rest (added, removed))
      else if line ! 0 = CHR ''-'' then
        (if \<not> HasPrefix line ''---'' then countStats_loop rest (added, removed + 1)
         else countStats_loop rest (added, removed))
      else countStats_loop rest (added, removed))"

definition countStats :: "string \<Rightarrow> int \<times> int" where
  "countStats diff = countStats_loop (Split diff NL) (0, 0)"

text \<open>
  \<^verbatim>\<open>computeDiff\<close> mutates its receiver; the model returns the updated record. On
  an error of the library the receiver is left as it was and the error is returned.
\<close>

definition computeDiff :: "difflib \<Rightarrow> ComponentDiff \<Rightarrow> error + ComponentDiff" where
  "computeDiff L cd =
     (let baseStr = string_of (BaseYAML cd);
          headStr = string_of (HeadYAML cd)
      in if baseStr = headStr then Inr cd
         else
           (let ud = \<lparr>SeqA = SplitLines L baseStr,
                      SeqB = SplitLines L headStr,
                      FromFile = Path cd @ '' (base)'',
                      ToFile = Path cd @ '' (head)'',
                      Context = 3\<rparr>
            in case GetUnifiedDiffString L ud of
                 Inl err \<Rightarrow> Inl err
               | Inr text \<Rightarrow>
                   (case countStats text of
                      (a, r) \<Rightarrow> Inr (cd\<lparr>Diff := text, Added := a, Removed := r\<rparr>))))"

definition HasDiff :: "ComponentDiff \<Rightarrow> bool" where
  "HasDiff cd = (Diff cd \<noteq> [])"

definition FromComponentPath :: "ComponentPath \<Rightarrow> Environment \<Rightarrow> ComponentDiff" where
  "FromComponentPath cp env =
     \<lparr>Path = cpPath cp, ClusterDir = cpClusterDir cp, Env = env,
      BaseYAML = None, HeadYAML = None, Diff = [], Added = 0, Removed = 0\<rparr>"

section \<open>engine.go\<close>

text \<open>\<^verbatim>\<open>NewEngine\<close>; \<^verbatim>\<open>runtime.NumCPU()\<close> is the parameter \<open>NumCPU\<close>.\<close>

definition NewEngine :: "int \<Rightarrow> RepoBuilder \<Rightarrow> RepoBuilder \<Rightarrow> int \<Rightarrow> Engine" where
  "NewEngine NumCPU h b c =
     \<lparr>head = h, base = b, concurrency = (if c \<le> 0 then NumCPU else c)\<rparr>"

text \<open>
  \<^verbatim>\<open>buildPair\<close> fills \<^verbatim>\<open>HeadYAML\<close> and \<^verbatim>\<open>BaseYAML\<close> of its argument, HEAD first.
  Each early \<^verbatim>\<open>return fmt.Errorf(...)\<close> is an \<^term>\<open>Inl\<close>; the caller drops the
  record in that case.
\<close>

definition buildPair :: "Engine \<Rightarrow> ComponentDiff \<Rightarrow> error + ComponentDiff" where
  "buildPair e cd =
     (case (if DirExists (head e) (Path cd) then
              (case BuildKustomization (head e) (Path cd) of
                 Inl headErr \<Rightarrow> Inl (BuildingOnHEAD (Path cd) headErr)
               | Inr y \<Rightarrow> Inr (cd\<lparr>HeadYAML := y\<rparr>))
            else Inr cd) of
        Inl err \<Rightarrow> Inl err
      | Inr cd1 \<Rightarrow>
          (case (if DirExists (base e) (Path cd1) then
                   (case BuildKustomization (base e) (Path cd1) of
                      Inl baseErr \<Rightarrow> Inl (BuildingOnBase (Path cd1) baseErr)
                    | Inr y \<Rightarrow> Inr (cd1\<lparr>BaseYAML := y\<rparr>))
                 else Inr cd1) of
             Inl err \<Rightarrow> Inl err
           | Inr cd2 \<Rightarrow>
               if HeadYAML cd2 = None \<and> BaseYAML cd2 = None
               then Inl (NotOnEitherRef (Path cd2))
               else Inr cd2))"

text \<open>The local type \<^verbatim>\<open>job\<close> of \<^verbatim>\<open>Run\<close> and \<^verbatim>\<open>RunProgressive\<close>.\<close>

record job =
  cp :: ComponentPath
  env :: Environment

text \<open>
  The argument \<^verbatim>\<open>affected\<close> is a Go map from environment to component paths. The
  model takes its entries in the order the \<^verbatim>\<open>range\<close> loop visits them (Go leaves that
  order open), and flattens them as the two nested loops do.
\<close>

type_synonym affected = "(Environment \<times> ComponentPath list) list"

definition collect_jobs :: "affected \<Rightarrow> job list" where
  "collect_jobs affected =
     concat (map (\<lambda>(env, paths). map (\<lambda>cp. \<lparr>cp = cp, env = env\<rparr>) paths) affected)"

text \<open>A record written by \<^verbatim>\<open>slog.Warn\<close>: message, then the attributes path, env and err.\<close>

datatype warning = Warn string string Environment error

text \<open>
  The function each job runs inside the errgroup (the same closure body in \<^verbatim>\<open>Run\<close>
  and in \<^verbatim>\<open>RunProgressive\<close>), up to the point where it touches shared state. It
  leaves by one of four exits:
  \<^item> \<open>Skipped\<close>: \<^verbatim>\<open>buildPair\<close> failed; a warning is logged and the closure returns nil;
  \<^item> \<open>Failed\<close>: \<^verbatim>\<open>computeDiff\<close> failed; the closure returns the wrapped error;
  \<^item> \<open>Diffed\<close>: \<^verbatim>\<open>HasDiff()\<close> holds; the record goes to the shared result;
  \<^item> \<open>NoDiff\<close>: nothing is recorded.
\<close>

datatype job_exit = Skipped warning | Failed error | Diffed ComponentDiff | NoDiff

definition job_func :: "difflib \<Rightarrow> Engine \<Rightarrow> job \<Rightarrow> job_exit" where
  "job_func L e j =
     (let cd = FromComponentPath (cp j) (env j)
      in case buildPair e cd of
           Inl err \<Rightarrow>
             Skipped (Warn ''skipping component due to build error'' (cpPath (cp j)) (env j) err)
         | Inr cd1 \<Rightarrow>
             (case computeDiff L cd1 of
                Inl err \<Rightarrow> Failed (ComputingDiff (cpPath (cp j)) (env j) err)
              | Inr cd2 \<Rightarrow> if HasDiff cd2 then Diffed cd2 else NoDiff))"

text \<open>
  The state the jobs of one \<^verbatim>\<open>Run\<close> share: the slice \<^verbatim>\<open>results\<close> (guarded by
  the mutex), the first error the errgroup has kept for \<^verbatim>\<open>g.Wait()\<close>, and the log.
\<close>

record group_state =
  results :: "ComponentDiff list"
  group_err :: "error option"
  warnings :: "warning list"

definition group_init :: group_state where
  "group_init = \<lparr>results = [], group_err = None, warnings = []\<rparr>"

text \<open>The errgroup keeps the first non-nil error a job returns, and only that one.\<close>

definition keep_first :: "error option \<Rightarrow> error \<Rightarrow> error option" where
  "keep_first kept err = (case kept of None \<Rightarrow> Some err | Some first \<Rightarrow> Some first)"

definition run_job :: "difflib \<Rightarrow> Engine \<Rightarrow> group_state \<Rightarrow> job \<Rightarrow> group_state" where
  "run_job L e st j =
     (case job_func L e j of
        Skipped w \<Rightarrow> st\<lparr>warnings := warnings st @ [w]\<rparr>
      | Failed err \<Rightarrow> st\<lparr>group_err := keep_first (group_err st) err\<rparr>
      | Diffed cd \<Rightarrow> st\<lparr>results := results st @ [cd]\<rparr>
      | NoDiff \<Rightarrow> st)"

text \<open>The loop after \<^verbatim>\<open>g.Wait()\<close> that sums the counters into the result.\<close>

definition add_totals :: "DiffResult \<Rightarrow> ComponentDiff \<Rightarrow> DiffResult" where
  "add_totals dr d =
     dr\<lparr>TotalAdded := TotalAdded dr + Added d, TotalRemoved := TotalRemoved dr + Removed d\<rparr>"

definition empty_result :: DiffResult where
  "empty_result = \<lparr>Diffs = [], TotalAdded = 0, TotalRemoved = 0\<rparr>"

text \<open>
  \<^verbatim>\<open>Run\<close>. The jobs run concurrently; they meet only at the mutex, at the errgroup's
  error slot and at the logger, and the builders are read-only snapshots. The argument
  \<open>sched\<close> is the order in which the jobs reach that point: every execution is the
  run of some permutation of the collected jobs (see \<open>schedule_of\<close>). A group made
  with the zero value of \<^verbatim>\<open>errgroup.Group\<close> cancels nothing, so every job runs even
  after one has failed. The limit \<^verbatim>\<open>g.SetLimit(e.concurrency)\<close> bounds how many jobs
  run at a time; it is positive for an engine made by \<^verbatim>\<open>NewEngine\<close>, so every job is
  started, and it has no part in what the run returns. The result is the pair of the Go
  return value (\<^term>\<open>Inl\<close> for \<^verbatim>\<open>(nil, err)\<close>) and the warnings logged.
\<close>

definition Run ::
  "difflib \<Rightarrow> Engine \<Rightarrow> job list \<Rightarrow> affected \<Rightarrow> (error + DiffResult) \<times> warning list" where
  "Run L e sched affected =
     (let jobs = collect_jobs affected
      in if length jobs = 0 then (Inr empty_result, [])
         else
           (let st = foldl (run_job L e) group_init sched
            in case group_err st of
                 Some err \<Rightarrow> (Inl err, warnings st)
               | None \<Rightarrow>
                   (Inr (foldl add_totals \<lparr>Diffs = results st, TotalAdded = 0, TotalRemoved = 0\<rparr>
                           (results st)),
                    warnings st)))"

definition schedule_of :: "affected \<Rightarrow> job list \<Rightarrow> bool" where
  "schedule_of affected sched = (mset sched = mset (collect_jobs affected))"

text \<open>
  What \<^verbatim>\<open>RunProgressive\<close> does to the channel \<^verbatim>\<open>out\<close>, as a trace. The receiver
  is taken to drain the channel (the caller in main.go ranges over it), so a send
  never blocks for good.
\<close>

datatype chan_event = Send ComponentDiff | Close

text \<open>
  The state the jobs of one \<^verbatim>\<open>RunProgressive\<close> share: the \<^verbatim>\<open>result\<close> they update
  under the mutex, the errgroup's error and the log.
\<close>

record progressive_state =
  result :: DiffResult
  wait_err :: "error option"
  logged :: "warning list"

definition progressive_init :: progressive_state where
  "progressive_init = \<lparr>result = empty_result, wait_err = None, logged = []\<rparr>"

definition record_diff :: "DiffResult \<Rightarrow> ComponentDiff \<Rightarrow> DiffResult" where
  "record_diff r cd =
     \<lparr>Diffs = Diffs r @ [cd],
      TotalAdded = TotalAdded r + Added cd,
      TotalRemoved = TotalRemoved r + Removed cd\<rparr>"

definition progressive_job ::
  "difflib \<Rightarrow> Engine \<Rightarrow> progressive_state \<Rightarrow> job \<Rightarrow> progressive_state" where
  "progressive_job L e st j =
     (case job_func L e j of
        Skipped w \<Rightarrow> st\<lparr>logged := logged st @ [w]\<rparr>
      | Failed err \<Rightarrow> st\<lparr>wait_err := keep_first (wait_err st) err\<rparr>
      | Diffed cd \<Rightarrow> st\<lparr>result := record_diff (result st) cd\<rparr>
      | NoDiff \<Rightarrow> st)"

text \<open>The send \<^verbatim>\<open>out <- *cd\<close> of one job, which comes before it takes the mutex.\<close>

definition send_job :: "difflib \<Rightarrow> Engine \<Rightarrow> chan_event list \<Rightarrow> job \<Rightarrow> chan_event list" where
  "send_job L e evs j =
     (case job_func L e j of
        Diffed cd \<Rightarrow> evs @ [Send cd]
      | _ \<Rightarrow> evs)"

text \<open>
  \<^verbatim>\<open>RunProgressive\<close>. A job first sends on the channel and then takes the mutex, so
  the jobs may reach the channel in one order (\<open>sends\<close>) and the mutex in another
  (\<open>sched\<close>); both are permutations of the collected jobs. The deferred
  \<^verbatim>\<open>close(out)\<close> runs at each of the three returns. The result is the Go return
  value, the warnings logged and the trace of the channel.
\<close>

definition RunProgressive ::
  "difflib \<Rightarrow> Engine \<Rightarrow> job list \<Rightarrow> job list \<Rightarrow> affected \<Rightarrow>
     (error + DiffResult) \<times> warning list \<times> chan_event list" where
  "RunProgressive L e sends sched affected =
     (let jobs = collect_jobs affected
      in if length jobs = 0 then (Inr empty_result, [], [Close])
         else
           (let evs = foldl (send_job L e) [] sends;
                st = foldl (progressive_job L e) progressive_init sched
            in case wait_err st of
                 Some err \<Rightarrow> (Inl err, logged st, evs @ [Close])
               | None \<Rightarrow> (Inr (result st), logged st, evs @ [Close])))"

section \<open>Vocabulary for stating the results\<close>

text \<open>
  Three views of a list of jobs, in the order of the list: the records of the jobs that
  leave by \<open>Diffed\<close>, the warnings of the jobs that leave by \<open>Skipped\<close>, and the
  error of the first job that leaves by \<open>Failed\<close>.
\<close>

fun diffed :: "difflib \<Rightarrow> Engine \<Rightarrow> job list \<Rightarrow> ComponentDiff list" where
  "diffed L e [] = []"
| "diffed L e (j # js) =
     (case job_func L e j of Diffed cd \<Rightarrow> cd # diffed L e js | _ \<Rightarrow> diffed L e js)"

fun skipped :: "difflib \<Rightarrow> Engine \<Rightarrow> job list \<Rightarrow> warning list" where
  "skipped L e [] = []"
| "skipped L e (j # js) =
     (case job_func L e j of Skipped w \<Rightarrow> w # skipped L e js | _ \<Rightarrow> skipped L e js)"

fun first_failure :: "difflib \<Rightarrow> Engine \<Rightarrow> job list \<Rightarrow> error option" where
  "first_failure L e [] = None"
| "first_failure L e (j # js) =
     (case job_func L e j of Failed err \<Rightarrow> Some err | _ \<Rightarrow> first_failure L e js)"

text \<open>The values sent on the channel, read off its trace.\<close>

definition sent :: "chan_event list \<Rightarrow> ComponentDiff list" where
  "sent evs = concat (map (\<lambda>ev. case ev of Send cd \<Rightarrow> [cd] | Close \<Rightarrow> []) evs)"

text \<open>The key of a record within a run: component path and environment.\<close>

definition key_of :: "ComponentDiff \<Rightarrow> string \<times> Environment" where
  "key_of d = (Path d, Env d)"

section \<open>Test doubles\<close>

text \<open>
  An in-memory \<^verbatim>\<open>RepoBuilder\<close> keyed by relative path: a directory exists when the
  table has an entry for it, and building it returns the entry.
\<close>

definition builder_of :: "(string \<times> (error + string option)) list \<Rightarrow> RepoBuilder" where
  "builder_of tbl =
     \<lparr>DirExists = (\<lambda>rel. map_of tbl rel \<noteq> None),
      BuildKustomization =
        (\<lambda>rel. case map_of tbl rel of
                  Some r \<Rightarrow> r
                | None \<Rightarrow> Inl (External ''no such directory''))\<rparr>"

text \<open>A diff library that answers every request with the same value.\<close>

definition lib_returning :: "error + string \<Rightarrow> difflib" where
  "lib_returning r = \<lparr>SplitLines = (\<lambda>s. [s]), GetUnifiedDiffString = (\<lambda>ud. r)\<rparr>"

definition staging_job :: "string \<Rightarrow> job" where
  "staging_job p = \<lparr>cp = \<lparr>cpPath = p, cpClusterDir = []\<rparr>, env = ''staging''\<rparr>"

definition staging_only :: "string list \<Rightarrow> affected" where
  "staging_only ps = [(''staging'', map (\<lambda>p. \<lparr>cpPath = p, cpClusterDir = []\<rparr>) ps)]"

text \<open>The unified diff of a rendering that loses its second YAML document.\<close>

definition removed_document_diff :: string where
  "removed_document_diff =
     ''--- components/foo (base)'' @ [NL] @ ''+++ components/foo (head)'' @ [NL] @
     ''@@ -1,4 +1,2 @@'' @ [NL] @ '' a: 1'' @ [NL] @ ''----'' @ [NL] @ ''-b: 2'' @ [NL] @
     '' '' @ [NL]"

text \<open>A diff library that answers by the \<^verbatim>\<open>FromFile\<close> label of the request.\<close>

definition lib_by_file :: "(string \<times> (error + string)) list \<Rightarrow> difflib" where
  "lib_by_file tbl =
     \<lparr>SplitLines = (\<lambda>s. [s]),
      GetUnifiedDiffString =
        (\<lambda>ud. case map_of tbl (FromFile ud) of Some r \<Rightarrow> r | None \<Rightarrow> Inr [])\<rparr>"

text \<open>
  Scenarios. In \<open>changed_engine\<close> the component \<^verbatim>\<open>components/foo\<close> renders to
  \<^verbatim>\<open>a: 2\<close> on base and \<^verbatim>\<open>a: 1\<close> on HEAD, \<^verbatim>\<open>components/bar\<close> exists on HEAD only
  and \<^verbatim>\<open>components/old\<close> on base only; \<open>foo_diff\<close>, \<open>bar_diff\<close> and \<open>old_diff\<close>
  are the unified diffs of the three, as go-difflib prints them (its \<^verbatim>\<open>SplitLines\<close>
  ends every text with one more line, which shows as the last context line), and
  \<open>changed_lib\<close> is a library that answers with them. In \<open>empty_head_engine\<close> and
  \<open>empty_base_engine\<close> the component exists on one ref only and renders to no bytes.
  In \<open>broken_head_engine\<close> and \<open>half_broken_engine\<close> a build fails; in
  \<open>missing_engine\<close> the path \<^verbatim>\<open>components/gone\<close> exists on neither ref.
\<close>

definition changed_engine :: Engine where
  "changed_engine =
     \<lparr>head = builder_of [(''components/foo'', Inr (Some (''a: 1'' @ [NL]))),
                         (''components/bar'', Inr (Some (''x: y'' @ [NL])))],
      base = builder_of [(''components/foo'', Inr (Some (''a: 2'' @ [NL]))),
                         (''components/old'', Inr (Some (''k: v'' @ [NL])))],
      concurrency = 4\<rparr>"

definition empty_head_engine :: Engine where
  "empty_head_engine =
     \<lparr>head = builder_of [(''components/new'', Inr (Some []))],
      base = builder_of [],
      concurrency = 4\<rparr>"

definition foo_diff :: string where
  "foo_diff =
     ''--- components/foo (base)'' @ [NL] @ ''+++ components/foo (head)'' @ [NL] @
     ''@@ -1,2 +1,2 @@'' @ [NL] @ ''-a: 2'' @ [NL] @ ''+a: 1'' @ [NL] @ '' '' @ [NL]"

definition bar_diff :: string where
  "bar_diff =
     ''--- components/bar (base)'' @ [NL] @ ''+++ components/bar (head)'' @ [NL] @
     ''@@ -1 +1,2 @@'' @ [NL] @ ''+x: y'' @ [NL] @ '' '' @ [NL]"

definition old_diff :: string where
  "old_diff =
     ''--- components/old (base)'' @ [NL] @ ''+++ components/old (head)'' @ [NL] @
     ''@@ -1,2 +1 @@'' @ [NL] @ ''-k: v'' @ [NL] @ '' '' @ [NL]"

definition changed_lib :: difflib where
  "changed_lib =
     lib_by_file [(''components/foo (base)'', Inr foo_diff),
                  (''components/bar (base)'', Inr bar_diff),
                  (''components/old (base)'', Inr old_diff)]"

definition broken_head_engine :: Engine where
  "broken_head_engine =
     \<lparr>head = builder_of [(''components/foo'', Inl (External ''kustomize build failed''))],
      base = builder_of [(''components/foo'', Inr (Some (''a: 2'' @ [NL])))],
      concurrency = 4\<rparr>"

definition half_broken_engine :: Engine where
  "half_broken_engine =
     \<lparr>head = builder_of [(''components/foo'', Inr (Some (''a: 1'' @ [NL]))),
                         (''components/baz'', Inr (Some (''k: v'' @ [NL])))],
      base = builder_of [(''components/foo'', Inr (Some (''a: 2'' @ [NL]))),
                         (''components/baz'', Inl (External ''kustomize build failed''))],
      concurrency = 4\<rparr>"

definition missing_engine :: Engine where
  "missing_engine =
     \<lparr>head = builder_of [(''components/foo'', Inr (Some (''a: 1'' @ [NL])))],
      base = builder_of [(''components/foo'', Inr (Some (''a: 2'' @ [NL])))],
      concurrency = 4\<rparr>"

definition empty_base_engine :: Engine where
  "empty_base_engine =
     \<lparr>head = builder_of [],
      base = builder_of [(''components/old'', Inr (Some []))],
      concurrency = 4\<rparr>"

section \<open>Theorems\<close>

lemmas doubles =
  staging_job_def staging_only_def builder_of_def lib_returning_def lib_by_file_def
  changed_engine_def empty_head_engine_def changed_lib_def foo_diff_def bar_diff_def old_diff_def
  broken_head_engine_def half_broken_engine_def missing_engine_def empty_base_engine_def

lemmas engine_defs =
  Run_def RunProgressive_def collect_jobs_def run_job_def progressive_job_def send_job_def
  job_func_def buildPair_def computeDiff_def FromComponentPath_def HasDiff_def group_init_def
  progressive_init_def empty_result_def add_totals_def record_diff_def keep_first_def
  schedule_of_def countStats_def HasPrefix_def sent_def key_of_def

subsection \<open>diff.go\<close>

lemma computeDiff_same_strings:
  "string_of (BaseYAML cd) = string_of (HeadYAML cd) \<Longrightarrow> computeDiff L cd = Inr cd"
  by (simp add: computeDiff_def)

lemma computeDiff_keeps:
  "computeDiff L cd = Inr cd' \<Longrightarrow>
     Path cd' = Path cd \<and> ClusterDir cd' = ClusterDir cd \<and> Env cd' = Env cd \<and>
     BaseYAML cd' = BaseYAML cd \<and> HeadYAML cd' = HeadYAML cd"
  by (auto simp: computeDiff_def Let_def split: if_splits sum.splits prod.splits)

text \<open>
  What the loop of \<^verbatim>\<open>countStats\<close> computes: it adds to each counter the number of
  lines that pass the tests of its \<^verbatim>\<open>case\<close>.
\<close>

lemma countStats_loop_counts:
  "countStats_loop ls (a, r) =
     (a + int (length (filter (\<lambda>l. l \<noteq> [] \<and> hd l = CHR ''+'' \<and> \<not> HasPrefix l ''+++'') ls)),
      r + int (length (filter (\<lambda>l. l \<noteq> [] \<and> hd l = CHR ''-'' \<and> \<not> HasPrefix l ''---'') ls)))"
  by (induction ls arbitrary: a r) (auto simp: hd_conv_nth)

lemma countStats_counts:
  "countStats diff =
     (int (length (filter (\<lambda>l. l \<noteq> [] \<and> hd l = CHR ''+'' \<and> \<not> HasPrefix l ''+++'')
             (Split diff NL))),
      int (length (filter (\<lambda>l. l \<noteq> [] \<and> hd l = CHR ''-'' \<and> \<not> HasPrefix l ''---'')
             (Split diff NL))))"
  by (simp add: countStats_def countStats_loop_counts)

lemma countStats_nonneg: "0 \<le> fst (countStats diff) \<and> 0 \<le> snd (countStats diff)"
  by (simp add: countStats_counts)

text \<open>
  C3. When the strings of \<^verbatim>\<open>BaseYAML\<close> and \<^verbatim>\<open>HeadYAML\<close> are equal (both empty, both
  nil, or one nil and one empty included), \<^verbatim>\<open>computeDiff\<close> returns nil and leaves its
  receiver as it was, whatever the diff library \<open>L\<close> would answer: the library is not
  called. So a record that came with an empty \<^verbatim>\<open>Diff\<close> and zero counters, as every
  record of the engine does, still has them.
\<close>

theorem computeDiff_identical_inputs:
  assumes "string_of (BaseYAML cd) = string_of (HeadYAML cd)"
    and "Diff cd = []" and "Added cd = 0" and "Removed cd = 0"
  shows "\<exists>cd'. computeDiff L cd = Inr cd' \<and> cd' = cd \<and>
           Diff cd' = [] \<and> Added cd' = 0 \<and> Removed cd' = 0 \<and> \<not> HasDiff cd'"
  using assms by (simp add: computeDiff_def HasDiff_def)

theorem computeDiff_identical_inputs_witness:
  "string_of None = string_of (Some [])
   \<and> Diff (FromComponentPath \<lparr>cpPath = ''components/foo'', cpClusterDir = []\<rparr> ''staging'') = []
   \<and> computeDiff (lib_returning (Inl (External ''diff failed'')))
      ((FromComponentPath \<lparr>cpPath = ''components/foo'', cpClusterDir = []\<rparr> ''staging'')
         \<lparr>BaseYAML := None, HeadYAML := Some []\<rparr>)
    = Inr ((FromComponentPath \<lparr>cpPath = ''components/foo'', cpClusterDir = []\<rparr> ''staging'')
         \<lparr>BaseYAML := None, HeadYAML := Some []\<rparr>)"
  using computeDiff_identical_inputs
    [of "(FromComponentPath \<lparr>cpPath = ''components/foo'', cpClusterDir = []\<rparr> ''staging'')
         \<lparr>BaseYAML := None, HeadYAML := Some []\<rparr>" "lib_returning (Inl (External ''diff failed''))"]
  by (simp add: FromComponentPath_def)

text \<open>
  C4. The text \<open>removed_document_diff\<close> is the unified diff of \<^verbatim>\<open>a: 1 / --- / b: 2\<close>
  against \<^verbatim>\<open>a: 1\<close>: two lines are removed, the YAML document separator \<^verbatim>\<open>---\<close> and
  \<^verbatim>\<open>b: 2\<close>. The removed separator is printed as \<^verbatim>\<open>----\<close>; it is not the file header,
  but it starts with \<^verbatim>\<open>---\<close>, so \<^verbatim>\<open>countStats\<close> leaves it out and reports one removed
  line.
\<close>

theorem countStats_removed_separator:
  "countStats removed_document_diff = (0, 1)"
  by (simp add: removed_document_diff_def countStats_def HasPrefix_def)

subsection \<open>engine.go: one job\<close>

lemma buildPair_keeps:
  "buildPair e cd = Inr cd' \<Longrightarrow>
     Path cd' = Path cd \<and> ClusterDir cd' = ClusterDir cd \<and> Env cd' = Env cd \<and>
     Diff cd' = Diff cd \<and> Added cd' = Added cd \<and> Removed cd' = Removed cd"
  by (auto simp: buildPair_def split: if_splits sum.splits)

lemma buildPair_fresh_path:
  "cpPath c2 = cpPath c1 \<Longrightarrow>
     buildPair e (FromComponentPath c1 env1) = Inl err \<Longrightarrow>
     buildPair e (FromComponentPath c2 env2) = Inl err"
  by (auto simp: buildPair_def FromComponentPath_def split: if_splits sum.splits)

lemma job_func_Skipped:
  "buildPair e (FromComponentPath (cp j) (env j)) = Inl err \<Longrightarrow>
     job_func L e j =
       Skipped (Warn ''skipping component due to build error'' (cpPath (cp j)) (env j) err)"
  by (simp add: job_func_def)

lemma job_func_Failed:
  "job_func L e j = Failed err \<Longrightarrow>
     \<exists>cd1 c. buildPair e (FromComponentPath (cp j) (env j)) = Inr cd1 \<and>
        computeDiff L cd1 = Inl c \<and> err = ComputingDiff (cpPath (cp j)) (env j) c"
  by (auto simp: job_func_def Let_def split: sum.splits if_splits)

lemma job_func_Diffed:
  "job_func L e j = Diffed d \<Longrightarrow>
     (\<exists>cd1. buildPair e (FromComponentPath (cp j) (env j)) = Inr cd1 \<and>
        computeDiff L cd1 = Inr d) \<and>
     Path d = cpPath (cp j) \<and> ClusterDir d = cpClusterDir (cp j) \<and> Env d = env j \<and> HasDiff d"
  by (auto simp: job_func_def Let_def FromComponentPath_def split: sum.splits if_splits
      dest!: buildPair_keeps computeDiff_keeps)

subsection \<open>engine.go: the loops over the jobs\<close>

lemma diffed_append: "diffed L e (xs @ ys) = diffed L e xs @ diffed L e ys"
  by (induction xs) (auto split: job_exit.splits)

lemma skipped_append: "skipped L e (xs @ ys) = skipped L e xs @ skipped L e ys"
  by (induction xs) (auto split: job_exit.splits)

lemma first_failure_append:
  "first_failure L e (xs @ ys) =
     (case first_failure L e xs of Some err \<Rightarrow> Some err | None \<Rightarrow> first_failure L e ys)"
  by (induction xs) (auto split: job_exit.splits)

lemma set_diffed:
  "set (diffed L e js) = {cd. \<exists>j\<in>set js. job_func L e j = Diffed cd}"
  by (induction js) (auto split: job_exit.splits)

lemma set_skipped:
  "set (skipped L e js) = {w. \<exists>j\<in>set js. job_func L e j = Skipped w}"
  by (induction js) (auto split: job_exit.splits)

lemma mset_diffed:
  "mset (diffed L e js) = (\<Sum>j\<in>#mset js. mset (diffed L e [j]))"
  by (induction js) (auto split: job_exit.splits)

lemma mset_diffed_cong:
  "mset xs = mset ys \<Longrightarrow> mset (diffed L e xs) = mset (diffed L e ys)"
  by (simp add: mset_diffed)

lemma first_failure_Some:
  "first_failure L e js = Some err \<Longrightarrow> \<exists>j\<in>set js. job_func L e j = Failed err"
  by (induction js) (auto split: job_exit.splits)

lemma first_failure_exists:
  "j \<in> set js \<Longrightarrow> job_func L e j = Failed err \<Longrightarrow> \<exists>err'. first_failure L e js = Some err'"
  by (induction js) (auto split: job_exit.splits)

lemma results_foldl:
  "results (foldl (run_job L e) st js) = results st @ diffed L e js"
  by (induction js arbitrary: st) (auto simp: run_job_def split: job_exit.splits)

lemma warnings_foldl:
  "warnings (foldl (run_job L e) st js) = warnings st @ skipped L e js"
  by (induction js arbitrary: st) (auto simp: run_job_def split: job_exit.splits)

lemma group_err_foldl:
  "group_err (foldl (run_job L e) st js) =
     (case group_err st of Some err \<Rightarrow> Some err | None \<Rightarrow> first_failure L e js)"
  by (induction js arbitrary: st)
     (auto simp: run_job_def keep_first_def split: job_exit.splits option.splits)

lemma add_totals_foldl:
  "foldl add_totals dr ds =
     dr\<lparr>TotalAdded := TotalAdded dr + sum_list (map Added ds),
        TotalRemoved := TotalRemoved dr + sum_list (map Removed ds)\<rparr>"
  by (induction ds arbitrary: dr) (auto simp: add_totals_def)

lemma sends_foldl:
  "foldl (send_job L e) evs js = evs @ map Send (diffed L e js)"
  by (induction js arbitrary: evs) (auto simp: send_job_def split: job_exit.splits)

lemma result_foldl:
  "result (foldl (progressive_job L e) st js) =
     \<lparr>Diffs = Diffs (result st) @ diffed L e js,
      TotalAdded = TotalAdded (result st) + sum_list (map Added (diffed L e js)),
      TotalRemoved = TotalRemoved (result st) + sum_list (map Removed (diffed L e js))\<rparr>"
  by (induction js arbitrary: st)
     (auto simp: progressive_job_def record_diff_def split: job_exit.splits)

lemma logged_foldl:
  "logged (foldl (progressive_job L e) st js) = logged st @ skipped L e js"
  by (induction js arbitrary: st) (auto simp: progressive_job_def split: job_exit.splits)

lemma wait_err_foldl:
  "wait_err (foldl (progressive_job L e) st js) =
     (case wait_err st of Some err \<Rightarrow> Some err | None \<Rightarrow> first_failure L e js)"
  by (induction js arbitrary: st)
     (auto simp: progressive_job_def keep_first_def split: job_exit.splits option.splits)

text \<open>The two entry points, in terms of the three views of the schedule.\<close>

lemma Run_eq:
  "Run L e sched affected =
     (if collect_jobs affected = [] then (Inr empty_result, [])
      else (case first_failure L e sched of
              Some err \<Rightarrow> (Inl err, skipped L e sched)
            | None \<Rightarrow>
                (Inr \<lparr>Diffs = diffed L e sched,
                      TotalAdded = sum_list (map Added (diffed L e sched)),
                      TotalRemoved = sum_list (map Removed (diffed L e sched))\<rparr>,
                 skipped L e sched)))"
  by (simp add: Run_def Let_def results_foldl warnings_foldl group_err_foldl add_totals_foldl
        group_init_def split: option.splits)

lemma RunProgressive_eq:
  "RunProgressive L e sends sched affected =
     (if collect_jobs affected = [] then (Inr empty_result, [], [Close])
      else (case first_failure L e sched of
              Some err \<Rightarrow> (Inl err, skipped L e sched, map Send (diffed L e sends) @ [Close])
            | None \<Rightarrow>
                (Inr \<lparr>Diffs = diffed L e sched,
                      TotalAdded = sum_list (map Added (diffed L e sched)),
                      TotalRemoved = sum_list (map Removed (diffed L e sched))\<rparr>,
                 skipped L e sched, map Send (diffed L e sends) @ [Close])))"
  by (simp add: RunProgressive_def Let_def sends_foldl result_foldl logged_foldl wait_err_foldl
        progressive_init_def empty_result_def split: option.splits)

lemma schedule_of_nonempty:
  "schedule_of affected sched \<Longrightarrow> j \<in> set sched \<Longrightarrow> collect_jobs affected \<noteq> []"
  by (auto simp: schedule_of_def)

lemma schedule_of_set:
  "schedule_of affected sched \<Longrightarrow> set sched = set (collect_jobs affected)"
  by (auto simp: schedule_of_def dest: mset_eq_setD)

lemma Run_Diffs_from_jobs:
  "fst (Run L e sched affected) = Inr dr \<Longrightarrow> d \<in> set (Diffs dr) \<Longrightarrow>
     \<exists>j\<in>set sched. job_func L e j = Diffed d"
  by (auto simp: Run_eq empty_result_def set_diffed split: if_splits option.splits)

lemma Run_Diffs_has_job:
  "schedule_of affected sched \<Longrightarrow> fst (Run L e sched affected) = Inr dr \<Longrightarrow>
     j \<in> set sched \<Longrightarrow> job_func L e j = Diffed d \<Longrightarrow> d \<in> set (Diffs dr)"
  by (auto simp: Run_eq set_diffed schedule_of_def split: if_splits option.splits)

lemma Run_skip:
  "job_func L e j = Skipped w \<Longrightarrow>
     fst (Run L e (xs @ j # ys) affected) = fst (Run L e (xs @ ys) affected)"
  by (simp add: Run_eq first_failure_append diffed_append split: option.splits)

lemma Run_warns:
  "schedule_of affected sched \<Longrightarrow> j \<in> set sched \<Longrightarrow> job_func L e j = Skipped w \<Longrightarrow>
     w \<in> set (snd (Run L e sched affected))"
  by (auto simp: Run_eq set_skipped schedule_of_def split: option.splits)

lemma RunProgressive_skip:
  "job_func L e j = Skipped w \<Longrightarrow>
     fst (RunProgressive L e (xs' @ j # ys') (xs @ j # ys) affected) =
       fst (RunProgressive L e (xs' @ ys') (xs @ ys) affected) \<and>
     snd (snd (RunProgressive L e (xs' @ j # ys') (xs @ j # ys) affected)) =
       snd (snd (RunProgressive L e (xs' @ ys') (xs @ ys) affected))"
  by (simp add: RunProgressive_eq first_failure_append diffed_append split: option.splits)

lemma sent_trace: "sent (map Send ds @ [Close]) = ds"
  by (induction ds) (auto simp: sent_def)

lemma count_Close_trace: "count_list (map Send ds @ [Close]) Close = 1"
  by (induction ds) auto

lemma no_diff_for_failed_path:
  assumes "buildPair e (FromComponentPath c env0) = Inl err"
    and "fst (Run L e sched affected) = Inr dr"
  shows "cpPath c \<notin> Path ` set (Diffs dr)"
proof
  assume "cpPath c \<in> Path ` set (Diffs dr)"
  then obtain d where d: "d \<in> set (Diffs dr)" "Path d = cpPath c" by auto
  from Run_Diffs_from_jobs [OF assms(2) d(1)]
  obtain j where j: "j \<in> set sched" "job_func L e j = Diffed d" by blast
  from job_func_Diffed [OF j(2)] d(2) have same: "cpPath (cp j) = cpPath c"
    and ok: "\<exists>cd1. buildPair e (FromComponentPath (cp j) (env j)) = Inr cd1" by auto
  from buildPair_fresh_path [OF same assms(1)] ok show False by auto
qed

lemma computeDiff_nil_is_empty:
  "map_sum id (\<lambda>d. (Diff d, Added d, Removed d)) (computeDiff L (cd\<lparr>BaseYAML := None\<rparr>)) =
   map_sum id (\<lambda>d. (Diff d, Added d, Removed d)) (computeDiff L (cd\<lparr>BaseYAML := Some []\<rparr>))
   \<and>
   map_sum id (\<lambda>d. (Diff d, Added d, Removed d)) (computeDiff L (cd\<lparr>HeadYAML := None\<rparr>)) =
   map_sum id (\<lambda>d. (Diff d, Added d, Removed d)) (computeDiff L (cd\<lparr>HeadYAML := Some []\<rparr>))"
  by (auto simp: computeDiff_def Let_def split: sum.splits prod.splits)

lemma empty_output_not_Diffed:
  assumes "DirExists (head e) (cpPath c) \<noteq> DirExists (base e) (cpPath c)"
    and "BuildKustomization (if DirExists (head e) (cpPath c) then head e else base e) (cpPath c)
           = Inr y"
    and "string_of y = []"
    and "cpPath (cp j) = cpPath c"
  shows "job_func L e j = NoDiff \<or>
         job_func L e j = Skipped (Warn ''skipping component due to build error''
                                     (cpPath (cp j)) (env j) (NotOnEitherRef (cpPath (cp j))))"
  using assms
  by (cases y)
     (auto simp: job_func_def buildPair_def computeDiff_def FromComponentPath_def HasDiff_def
       split: if_splits)

text \<open>
  C10. \<^verbatim>\<open>computeDiff\<close> compares \<^verbatim>\<open>string(cd.BaseYAML)\<close> with
  \<^verbatim>\<open>string(cd.HeadYAML)\<close>, so it computes the same diff and counters for a nil side as
  for an empty one. For a component whose directory exists on exactly one ref and whose
  build there returns no bytes (the nil slice or an empty one) and no error: the job
  records nothing (it ends with no diff, or is skipped because both sides are nil); if
  \<^verbatim>\<open>buildPair\<close> succeeds, \<^verbatim>\<open>computeDiff\<close> leaves \<^verbatim>\<open>Diff\<close> empty and \<^verbatim>\<open>HasDiff()\<close>
  is false; no record of that path is in the \<^verbatim>\<open>Diffs\<close> of a result of \<^verbatim>\<open>Run\<close>, and
  none is sent by \<^verbatim>\<open>RunProgressive\<close>.
\<close>

theorem empty_output_on_one_ref:
  assumes "DirExists (head e) (cpPath (cp j)) \<noteq> DirExists (base e) (cpPath (cp j))"
    and "BuildKustomization
           (if DirExists (head e) (cpPath (cp j)) then head e else base e) (cpPath (cp j))
           = Inr y"
    and "string_of y = []"
  shows "(\<forall>cd. map_sum id (\<lambda>d. (Diff d, Added d, Removed d))
                 (computeDiff L (cd\<lparr>BaseYAML := None\<rparr>)) =
               map_sum id (\<lambda>d. (Diff d, Added d, Removed d))
                 (computeDiff L (cd\<lparr>BaseYAML := Some []\<rparr>)) \<and>
               map_sum id (\<lambda>d. (Diff d, Added d, Removed d))
                 (computeDiff L (cd\<lparr>HeadYAML := None\<rparr>)) =
               map_sum id (\<lambda>d. (Diff d, Added d, Removed d))
                 (computeDiff L (cd\<lparr>HeadYAML := Some []\<rparr>)))
       \<and> (job_func L e j = NoDiff \<or>
          job_func L e j = Skipped (Warn ''skipping component due to build error''
                                      (cpPath (cp j)) (env j) (NotOnEitherRef (cpPath (cp j)))))
       \<and> (\<forall>cd1. buildPair e (FromComponentPath (cp j) (env j)) = Inr cd1 \<longrightarrow>
             computeDiff L cd1 = Inr cd1 \<and> Diff cd1 = [] \<and> \<not> HasDiff cd1)
       \<and> (\<forall>sched affected dr. fst (Run L e sched affected) = Inr dr \<longrightarrow>
             cpPath (cp j) \<notin> Path ` set (Diffs dr))
       \<and> (\<forall>sends sched affected d.
             Send d \<in> set (snd (snd (RunProgressive L e sends sched affected))) \<longrightarrow>
             Path d \<noteq> cpPath (cp j))"
proof (intro conjI allI impI)
  fix cd
  show "map_sum id (\<lambda>d. (Diff d, Added d, Removed d)) (computeDiff L (cd\<lparr>BaseYAML := None\<rparr>)) =
        map_sum id (\<lambda>d. (Diff d, Added d, Removed d)) (computeDiff L (cd\<lparr>BaseYAML := Some []\<rparr>))"
    and "map_sum id (\<lambda>d. (Diff d, Added d, Removed d)) (computeDiff L (cd\<lparr>HeadYAML := None\<rparr>)) =
        map_sum id (\<lambda>d. (Diff d, Added d, Removed d)) (computeDiff L (cd\<lparr>HeadYAML := Some []\<rparr>))"
    using computeDiff_nil_is_empty [of L cd] by simp_all
next
  show "job_func L e j = NoDiff \<or>
        job_func L e j = Skipped (Warn ''skipping component due to build error''
                                    (cpPath (cp j)) (env j) (NotOnEitherRef (cpPath (cp j))))"
    using assms by (rule empty_output_not_Diffed) simp
next
  fix cd1 assume "buildPair e (FromComponentPath (cp j) (env j)) = Inr cd1"
  with assms show "computeDiff L cd1 = Inr cd1" "Diff cd1 = []" "\<not> HasDiff cd1"
    by (cases y; auto simp: buildPair_def computeDiff_def FromComponentPath_def HasDiff_def
          split: if_splits)+
next
  fix sched affected dr
  assume run: "fst (Run L e sched affected) = Inr dr"
  show "cpPath (cp j) \<notin> Path ` set (Diffs dr)"
  proof
    assume "cpPath (cp j) \<in> Path ` set (Diffs dr)"
    then obtain d where d: "d \<in> set (Diffs dr)" "Path d = cpPath (cp j)" by auto
    from Run_Diffs_from_jobs [OF run d(1)]
    obtain j' where j': "job_func L e j' = Diffed d" by blast
    with job_func_Diffed [OF j'] d(2) have "cpPath (cp j') = cpPath (cp j)" by simp
    from empty_output_not_Diffed [OF assms this, of L] j' show False by auto
  qed
next
  fix sends sched affected d
  assume "Send d \<in> set (snd (snd (RunProgressive L e sends sched affected)))"
  then have "d \<in> set (diffed L e sends)"
    by (auto simp: RunProgressive_eq split: if_splits option.splits)
  then obtain j' where j': "job_func L e j' = Diffed d" by (auto simp: set_diffed)
  show "Path d \<noteq> cpPath (cp j)"
  proof
    assume "Path d = cpPath (cp j)"
    with job_func_Diffed [OF j'] have "cpPath (cp j') = cpPath (cp j)" by simp
    from empty_output_not_Diffed [OF assms this, of L] j' show False by auto
  qed
qed

theorem empty_output_on_one_ref_witness:
  "DirExists (head empty_base_engine) ''components/old''
     \<noteq> DirExists (base empty_base_engine) ''components/old''
   \<and> BuildKustomization (base empty_base_engine) ''components/old'' = Inr (Some [])
   \<and> string_of (Some []) = []
   \<and> job_func changed_lib empty_base_engine (staging_job ''components/old'') = NoDiff
   \<and> buildPair empty_base_engine (FromComponentPath (cp (staging_job ''components/old'')) ''staging'')
     = Inr \<lparr>Path = ''components/old'', ClusterDir = [], Env = ''staging'',
            BaseYAML = Some [], HeadYAML = None, Diff = [], Added = 0, Removed = 0\<rparr>
   \<and> fst (Run changed_lib empty_base_engine
            [staging_job ''components/old''] (staging_only [''components/old'']))
     = Inr \<lparr>Diffs = [], TotalAdded = 0, TotalRemoved = 0\<rparr>"
  using empty_output_on_one_ref
    [of empty_base_engine "staging_job ''components/old''" "Some []" changed_lib]
  by (simp add: doubles engine_defs)

text \<open>
  C6. If \<^verbatim>\<open>computeDiff\<close> fails for a job of the run, then \<^verbatim>\<open>Run\<close> and
  \<^verbatim>\<open>RunProgressive\<close> return \<^verbatim>\<open>(nil, err)\<close>, in every schedule: no result is returned
  and nothing is recorded for the component. The error is the one of the first job whose
  \<^verbatim>\<open>computeDiff\<close> failed, and it wraps the error of the diff computation.
\<close>

theorem diff_failure_aborts_run:
  assumes "schedule_of affected sched" and "j \<in> set sched"
    and "buildPair e (FromComponentPath (cp j) (env j)) = Inr cd1"
    and "computeDiff L cd1 = Inl c"
  shows "\<exists>j'\<in>set sched. \<exists>cd' c'.
           buildPair e (FromComponentPath (cp j') (env j')) = Inr cd' \<and>
           computeDiff L cd' = Inl c' \<and>
           Run L e sched affected =
             (Inl (ComputingDiff (cpPath (cp j')) (env j') c'), skipped L e sched) \<and>
           fst (RunProgressive L e sends sched affected) =
             Inl (ComputingDiff (cpPath (cp j')) (env j') c') \<and>
           Unwrap (ComputingDiff (cpPath (cp j')) (env j') c') = Some c'"
proof -
  from assms(3,4) have failed: "job_func L e j = Failed (ComputingDiff (cpPath (cp j)) (env j) c)"
    by (simp add: job_func_def)
  from first_failure_exists [OF assms(2) failed]
  obtain err where err: "first_failure L e sched = Some err" by blast
  from first_failure_Some [OF err]
  obtain j' where j': "j' \<in> set sched" "job_func L e j' = Failed err" by blast
  from job_func_Failed [OF j'(2)]
  obtain cd' c' where c': "buildPair e (FromComponentPath (cp j') (env j')) = Inr cd'"
    "computeDiff L cd' = Inl c'" "err = ComputingDiff (cpPath (cp j')) (env j') c'" by blast
  from schedule_of_nonempty [OF assms(1,2)] have ne: "collect_jobs affected \<noteq> []" .
  have "Run L e sched affected = (Inl err, skipped L e sched)"
    using ne err by (simp add: Run_eq)
  moreover have "fst (RunProgressive L e sends sched affected) = Inl err"
    using ne err by (simp add: RunProgressive_eq)
  ultimately show ?thesis using j'(1) c' by auto
qed

theorem diff_failure_aborts_run_witness:
  "schedule_of (staging_only [''components/foo'', ''components/bar''])
     [staging_job ''components/bar'', staging_job ''components/foo'']
   \<and> buildPair changed_engine (FromComponentPath (cp (staging_job ''components/foo'')) ''staging'')
     = Inr \<lparr>Path = ''components/foo'', ClusterDir = [], Env = ''staging'',
            BaseYAML = Some (''a: 2'' @ [NL]), HeadYAML = Some (''a: 1'' @ [NL]),
            Diff = [], Added = 0, Removed = 0\<rparr>
   \<and> computeDiff (lib_returning (Inl (External ''write failed'')))
        \<lparr>Path = ''components/foo'', ClusterDir = [], Env = ''staging'',
         BaseYAML = Some (''a: 2'' @ [NL]), HeadYAML = Some (''a: 1'' @ [NL]),
         Diff = [], Added = 0, Removed = 0\<rparr>
     = Inl (External ''write failed'')
   \<and> Run (lib_returning (Inl (External ''write failed''))) changed_engine
     [staging_job ''components/bar'', staging_job ''components/foo'']
     (staging_only [''components/foo'', ''components/bar''])
   = (Inl (ComputingDiff ''components/bar'' ''staging'' (External ''write failed'')), [])"
  using diff_failure_aborts_run
    [of "staging_only [''components/foo'', ''components/bar'']"
        "[staging_job ''components/bar'', staging_job ''components/foo'']"
        "staging_job ''components/foo''" changed_engine
        "\<lparr>Path = ''components/foo'', ClusterDir = [], Env = ''staging'',
          BaseYAML = Some (''a: 2'' @ [NL]), HeadYAML = Some (''a: 1'' @ [NL]),
          Diff = [], Added = 0, Removed = 0\<rparr>"
        "lib_returning (Inl (External ''write failed''))" "External ''write failed''" "[]"]
  by (simp add: doubles engine_defs)

lemma count_Close_sends: "count_list (map Send ds) Close = 0"
  by (induction ds) auto

text \<open>
  C7. In every execution of \<^verbatim>\<open>RunProgressive\<close> the trace of the channel is a sequence
  of sends followed by one \<^verbatim>\<open>close\<close>, which is its only \<^verbatim>\<open>close\<close>: it comes last,
  after the sends of all jobs, whether the run returns a result or an error. The values
  sent are those of all the jobs that end with a diff. When the run returns a result,
  they are the values of its \<^verbatim>\<open>Diffs\<close> (as multisets, so also as sets of keys); when it
  returns an error there is no result to compare with.
\<close>

theorem RunProgressive_channel:
  assumes "schedule_of affected sends" and "schedule_of affected sched"
  shows "case RunProgressive L e sends sched affected of
           (r, w, evs) \<Rightarrow>
             evs = map Send (sent evs) @ [Close] \<and>
             count_list evs Close = 1 \<and>
             mset (sent evs) = mset (diffed L e (collect_jobs affected)) \<and>
             (\<forall>dr. r = Inr dr \<longrightarrow>
                mset (sent evs) = mset (Diffs dr) \<and>
                key_of ` set (sent evs) = key_of ` set (Diffs dr))"
proof -
  from assms have a: "mset (diffed L e sends) = mset (diffed L e (collect_jobs affected))"
    and b: "mset (diffed L e sched) = mset (diffed L e (collect_jobs affected))"
    by (auto simp: schedule_of_def intro: mset_diffed_cong)
  then have c: "set (diffed L e sends) = set (diffed L e sched)"
    by (metis set_mset_mset)
  show ?thesis
  proof (cases "collect_jobs affected = []")
    case True
    then show ?thesis
      by (simp add: RunProgressive_eq sent_def empty_result_def)
  next
    case False
    then show ?thesis
      using a b c
      by (simp add: RunProgressive_eq sent_trace count_Close_sends split: option.splits)
  qed
qed

theorem RunProgressive_channel_witness:
  "schedule_of (staging_only [''components/foo'', ''components/bar''])
     [staging_job ''components/bar'', staging_job ''components/foo'']
   \<and> schedule_of (staging_only [''components/foo'', ''components/bar''])
     [staging_job ''components/foo'', staging_job ''components/bar'']
   \<and> RunProgressive changed_lib changed_engine
     [staging_job ''components/bar'', staging_job ''components/foo'']
     [staging_job ''components/foo'', staging_job ''components/bar'']
     (staging_only [''components/foo'', ''components/bar''])
   = (Inr \<lparr>Diffs =
             [\<lparr>Path = ''components/foo'', ClusterDir = [], Env = ''staging'',
               BaseYAML = Some (''a: 2'' @ [NL]), HeadYAML = Some (''a: 1'' @ [NL]),
               Diff = foo_diff, Added = 1, Removed = 1\<rparr>,
              \<lparr>Path = ''components/bar'', ClusterDir = [], Env = ''staging'',
               BaseYAML = None, HeadYAML = Some (''x: y'' @ [NL]),
               Diff = bar_diff, Added = 1, Removed = 0\<rparr>],
           TotalAdded = 2, TotalRemoved = 1\<rparr>,
      [],
      [Send \<lparr>Path = ''components/bar'', ClusterDir = [], Env = ''staging'',
             BaseYAML = None, HeadYAML = Some (''x: y'' @ [NL]),
             Diff = bar_diff, Added = 1, Removed = 0\<rparr>,
       Send \<lparr>Path = ''components/foo'', ClusterDir = [], Env = ''staging'',
             BaseYAML = Some (''a: 2'' @ [NL]), HeadYAML = Some (''a: 1'' @ [NL]),
             Diff = foo_diff, Added = 1, Removed = 1\<rparr>,
       Close])"
  using RunProgressive_channel
    [of "staging_only [''components/foo'', ''components/bar'']"
        "[staging_job ''components/bar'', staging_job ''components/foo'']"
        "[staging_job ''components/foo'', staging_job ''components/bar'']"
        changed_lib changed_engine]
  by (simp add: doubles engine_defs)

subsection \<open>Build failures\<close>

lemma RunProgressive_warns:
  "schedule_of affected sched \<Longrightarrow> j \<in> set sched \<Longrightarrow> job_func L e j = Skipped w \<Longrightarrow>
     w \<in> set (fst (snd (RunProgressive L e sends sched affected)))"
  by (auto simp: RunProgressive_eq set_skipped schedule_of_def split: option.splits)

lemma no_diffed_for_failed_path:
  assumes "buildPair e (FromComponentPath c env0) = Inl err"
    and "d \<in> set (diffed L e js)"
  shows "Path d \<noteq> cpPath c"
proof
  assume same_path: "Path d = cpPath c"
  from assms(2) obtain j where j: "job_func L e j = Diffed d" by (auto simp: set_diffed)
  from job_func_Diffed [OF j] same_path have same: "cpPath (cp j) = cpPath c"
    and ok: "\<exists>cd1. buildPair e (FromComponentPath (cp j) (env j)) = Inr cd1" by auto
  from buildPair_fresh_path [OF same assms(1)] ok show False by auto
qed

lemma no_send_for_failed_path:
  assumes "buildPair e (FromComponentPath c env0) = Inl err"
    and "Send d \<in> set (snd (snd (RunProgressive L e sends sched affected)))"
  shows "Path d \<noteq> cpPath c"
proof -
  from assms(2) have "d \<in> set (diffed L e sends)"
    by (auto simp: RunProgressive_eq split: if_splits option.splits)
  with assms(1) show ?thesis by (rule no_diffed_for_failed_path)
qed

lemma no_progressive_diff_for_failed_path:
  assumes "buildPair e (FromComponentPath c env0) = Inl err"
    and "fst (RunProgressive L e sends sched affected) = Inr dr"
  shows "cpPath c \<notin> Path ` set (Diffs dr)"
proof
  assume "cpPath c \<in> Path ` set (Diffs dr)"
  then obtain d where d: "d \<in> set (Diffs dr)" "Path d = cpPath c" by auto
  from assms(2) d(1) have "d \<in> set (diffed L e sched)"
    by (auto simp: RunProgressive_eq empty_result_def split: if_splits option.splits)
  from no_diffed_for_failed_path [OF assms(1) this] d(2) show False by simp
qed

text \<open>
  C1, as stated, fails. In \<open>broken_head_engine\<close> the build of
  \<^verbatim>\<open>components/foo\<close> fails on HEAD. \<^verbatim>\<open>Run\<close> and \<^verbatim>\<open>RunProgressive\<close> do return a
  result, but its \<^verbatim>\<open>Diffs\<close> is empty and nothing is sent on the channel: the component
  is logged and left out. \<^verbatim>\<open>ComponentDiff\<close> has no field for a build error.
\<close>

theorem failed_build_dropped_counterexample:
  "buildPair broken_head_engine (FromComponentPath (cp (staging_job ''components/foo'')) ''staging'')
     = Inl (BuildingOnHEAD ''components/foo'' (External ''kustomize build failed''))
   \<and> Run changed_lib broken_head_engine [staging_job ''components/foo'']
       (staging_only [''components/foo''])
     = (Inr \<lparr>Diffs = [], TotalAdded = 0, TotalRemoved = 0\<rparr>,
        [Warn ''skipping component due to build error'' ''components/foo'' ''staging''
           (BuildingOnHEAD ''components/foo'' (External ''kustomize build failed''))])
   \<and> RunProgressive changed_lib broken_head_engine [staging_job ''components/foo'']
       [staging_job ''components/foo''] (staging_only [''components/foo''])
     = (Inr \<lparr>Diffs = [], TotalAdded = 0, TotalRemoved = 0\<rparr>,
        [Warn ''skipping component due to build error'' ''components/foo'' ''staging''
           (BuildingOnHEAD ''components/foo'' (External ''kustomize build failed''))],
        [Close])"
  by (simp add: doubles engine_defs)

text \<open>
  C1, amended. A job whose \<^verbatim>\<open>buildPair\<close> fails never aborts the run: in every
  schedule \<^verbatim>\<open>Run\<close> and \<^verbatim>\<open>RunProgressive\<close> return what they return without that job,
  and the channel carries the same trace. In \<^verbatim>\<open>Run\<close> and in \<^verbatim>\<open>RunProgressive\<close> alike the
  failure is logged as a warning with the path, the environment and the error, and the
  component is left out of the output: no record of its path is in the \<^verbatim>\<open>Diffs\<close> of
  either result, and none is sent on the channel.
\<close>

theorem build_failure_skips_component:
  assumes "schedule_of affected (xs @ j # ys)"
    and "buildPair e (FromComponentPath (cp j) (env j)) = Inl err"
  shows "fst (Run L e (xs @ j # ys) affected) = fst (Run L e (xs @ ys) affected)
       \<and> Warn ''skipping component due to build error'' (cpPath (cp j)) (env j) err
           \<in> set (snd (Run L e (xs @ j # ys) affected))
       \<and> (\<forall>dr. fst (Run L e (xs @ j # ys) affected) = Inr dr \<longrightarrow>
             cpPath (cp j) \<notin> Path ` set (Diffs dr))
       \<and> fst (RunProgressive L e (xs' @ j # ys') (xs @ j # ys) affected) =
           fst (RunProgressive L e (xs' @ ys') (xs @ ys) affected)
       \<and> snd (snd (RunProgressive L e (xs' @ j # ys') (xs @ j # ys) affected)) =
           snd (snd (RunProgressive L e (xs' @ ys') (xs @ ys) affected))
       \<and> Warn ''skipping component due to build error'' (cpPath (cp j)) (env j) err
           \<in> set (fst (snd (RunProgressive L e (xs' @ j # ys') (xs @ j # ys) affected)))
       \<and> (\<forall>dr. fst (RunProgressive L e (xs' @ j # ys') (xs @ j # ys) affected) = Inr dr \<longrightarrow>
             cpPath (cp j) \<notin> Path ` set (Diffs dr))
       \<and> (\<forall>d. Send d
               \<in> set (snd (snd (RunProgressive L e (xs' @ j # ys') (xs @ j # ys) affected)))
             \<longrightarrow> Path d \<noteq> cpPath (cp j))"
proof -
  let ?w = "Warn ''skipping component due to build error'' (cpPath (cp j)) (env j) err"
  from assms(2) have skip: "job_func L e j = Skipped ?w" by (rule job_func_Skipped)
  have mem: "j \<in> set (xs @ j # ys)" by simp
  from Run_warns [OF assms(1) mem skip]
  have "?w \<in> set (snd (Run L e (xs @ j # ys) affected))" .
  moreover have "\<forall>dr. fst (Run L e (xs @ j # ys) affected) = Inr dr \<longrightarrow>
      cpPath (cp j) \<notin> Path ` set (Diffs dr)"
    using no_diff_for_failed_path [OF assms(2)] by blast
  moreover from RunProgressive_warns [OF assms(1) mem skip]
  have "?w \<in> set (fst (snd (RunProgressive L e (xs' @ j # ys') (xs @ j # ys) affected)))" .
  moreover have "\<forall>dr. fst (RunProgressive L e (xs' @ j # ys') (xs @ j # ys) affected) = Inr dr \<longrightarrow>
      cpPath (cp j) \<notin> Path ` set (Diffs dr)"
    using no_progressive_diff_for_failed_path [OF assms(2)] by blast
  moreover have "\<forall>d. Send d
        \<in> set (snd (snd (RunProgressive L e (xs' @ j # ys') (xs @ j # ys) affected)))
      \<longrightarrow> Path d \<noteq> cpPath (cp j)"
    using no_send_for_failed_path [OF assms(2)] by blast
  ultimately show ?thesis
    using Run_skip [OF skip] RunProgressive_skip [OF skip] by simp
qed

theorem build_failure_skips_component_witness:
  "schedule_of (staging_only [''components/foo'', ''components/baz''])
     [staging_job ''components/baz'', staging_job ''components/foo'']
   \<and> buildPair half_broken_engine (FromComponentPath (cp (staging_job ''components/baz'')) ''staging'')
     = Inl (BuildingOnBase ''components/baz'' (External ''kustomize build failed''))
   \<and> fst (Run changed_lib half_broken_engine
          [staging_job ''components/baz'', staging_job ''components/foo'']
          (staging_only [''components/foo'', ''components/baz'']))
     = Inr \<lparr>Diffs = [\<lparr>Path = ''components/foo'', ClusterDir = [], Env = ''staging'',
                     BaseYAML = Some (''a: 2'' @ [NL]), HeadYAML = Some (''a: 1'' @ [NL]),
                     Diff = foo_diff, Added = 1, Removed = 1\<rparr>],
            TotalAdded = 1, TotalRemoved = 1\<rparr>
   \<and> fst (Run changed_lib half_broken_engine [staging_job ''components/foo'']
          (staging_only [''components/foo'', ''components/baz'']))
     = Inr \<lparr>Diffs = [\<lparr>Path = ''components/foo'', ClusterDir = [], Env = ''staging'',
                     BaseYAML = Some (''a: 2'' @ [NL]), HeadYAML = Some (''a: 1'' @ [NL]),
                     Diff = foo_diff, Added = 1, Removed = 1\<rparr>],
            TotalAdded = 1, TotalRemoved = 1\<rparr>
   \<and> snd (Run changed_lib half_broken_engine
          [staging_job ''components/baz'', staging_job ''components/foo'']
          (staging_only [''components/foo'', ''components/baz'']))
     = [Warn ''skipping component due to build error'' ''components/baz'' ''staging''
          (BuildingOnBase ''components/baz'' (External ''kustomize build failed''))]
   \<and> RunProgressive changed_lib half_broken_engine
       [staging_job ''components/baz'', staging_job ''components/foo'']
       [staging_job ''components/baz'', staging_job ''components/foo'']
       (staging_only [''components/foo'', ''components/baz''])
     = (Inr \<lparr>Diffs = [\<lparr>Path = ''components/foo'', ClusterDir = [], Env = ''staging'',
                      BaseYAML = Some (''a: 2'' @ [NL]), HeadYAML = Some (''a: 1'' @ [NL]),
                      Diff = foo_diff, Added = 1, Removed = 1\<rparr>],
             TotalAdded = 1, TotalRemoved = 1\<rparr>,
        [Warn ''skipping component due to build error'' ''components/baz'' ''staging''
           (BuildingOnBase ''components/baz'' (External ''kustomize build failed''))],
        [Send \<lparr>Path = ''components/foo'', ClusterDir = [], Env = ''staging'',
               BaseYAML = Some (''a: 2'' @ [NL]), HeadYAML = Some (''a: 1'' @ [NL]),
               Diff = foo_diff, Added = 1, Removed = 1\<rparr>,
         Close])"
  using build_failure_skips_component
    [of "staging_only [''components/foo'', ''components/baz'']" "[]"
        "staging_job ''components/baz''" "[staging_job ''components/foo'']"
        half_broken_engine "BuildingOnBase ''components/baz'' (External ''kustomize build failed'')"
        changed_lib "[]" "[staging_job ''components/foo'']"]
  by (simp add: doubles engine_defs)

text \<open>
  C5, as stated, fails. In \<open>missing_engine\<close> the path \<^verbatim>\<open>components/gone\<close> exists on
  neither ref. The run is not aborted and a warning is logged, but the result lists only
  the other component: the missing one is left out of the output.
\<close>

theorem missing_component_dropped_counterexample:
  "DirExists (head missing_engine) ''components/gone'' = False
   \<and> DirExists (base missing_engine) ''components/gone'' = False
   \<and> Run changed_lib missing_engine
       [staging_job ''components/gone'', staging_job ''components/foo'']
       (staging_only [''components/foo'', ''components/gone''])
     = (Inr \<lparr>Diffs = [\<lparr>Path = ''components/foo'', ClusterDir = [], Env = ''staging'',
                     BaseYAML = Some (''a: 2'' @ [NL]), HeadYAML = Some (''a: 1'' @ [NL]),
                     Diff = foo_diff, Added = 1, Removed = 1\<rparr>],
            TotalAdded = 1, TotalRemoved = 1\<rparr>,
        [Warn ''skipping component due to build error'' ''components/gone'' ''staging''
           (NotOnEitherRef ''components/gone'')])"
  by (simp add: doubles engine_defs)

text \<open>
  C5, amended. For a job whose path exists on neither snapshot, \<^verbatim>\<open>buildPair\<close> fails
  with an error of its own (\<^verbatim>\<open>component ... does not exist on either ref\<close>, no build
  is wrapped). At run level, in \<^verbatim>\<open>Run\<close> and in \<^verbatim>\<open>RunProgressive\<close> alike, the job is
  skipped: the run returns what it returns without the job, so an error of the run always
  comes from the diff computation of another job; the warning with that error is logged;
  and the component is left out of the output: no record of its path is in the
  \<^verbatim>\<open>Diffs\<close> of either result or sent on the channel.
\<close>

theorem missing_component_is_skipped:
  assumes "schedule_of affected (xs @ j # ys)"
    and "\<not> DirExists (head e) (cpPath (cp j))"
    and "\<not> DirExists (base e) (cpPath (cp j))"
  shows "buildPair e (FromComponentPath (cp j) (env j)) = Inl (NotOnEitherRef (cpPath (cp j)))
       \<and> Error (NotOnEitherRef (cpPath (cp j))) =
           ''component '' @ cpPath (cp j) @ '' does not exist on either ref''
       \<and> job_func L e j =
           Skipped (Warn ''skipping component due to build error'' (cpPath (cp j)) (env j)
                      (NotOnEitherRef (cpPath (cp j))))
       \<and> fst (Run L e (xs @ j # ys) affected) = fst (Run L e (xs @ ys) affected)
       \<and> (\<forall>er. fst (Run L e (xs @ j # ys) affected) = Inl er \<longrightarrow>
             (\<exists>j'\<in>set (xs @ ys). job_func L e j' = Failed er))
       \<and> Warn ''skipping component due to build error'' (cpPath (cp j)) (env j)
             (NotOnEitherRef (cpPath (cp j)))
           \<in> set (snd (Run L e (xs @ j # ys) affected))
       \<and> (\<forall>dr. fst (Run L e (xs @ j # ys) affected) = Inr dr \<longrightarrow>
             cpPath (cp j) \<notin> Path ` set (Diffs dr))
       \<and> fst (RunProgressive L e (xs' @ j # ys') (xs @ j # ys) affected) =
           fst (RunProgressive L e (xs' @ ys') (xs @ ys) affected)
       \<and> (\<forall>d. Send d \<in> set (snd (snd (RunProgressive L e (xs' @ j # ys') (xs @ j # ys) affected)))
             \<longrightarrow> Path d \<noteq> cpPath (cp j))
       \<and> Warn ''skipping component due to build error'' (cpPath (cp j)) (env j)
             (NotOnEitherRef (cpPath (cp j)))
           \<in> set (fst (snd (RunProgressive L e (xs' @ j # ys') (xs @ j # ys) affected)))
       \<and> (\<forall>dr. fst (RunProgressive L e (xs' @ j # ys') (xs @ j # ys) affected) = Inr dr \<longrightarrow>
             cpPath (cp j) \<notin> Path ` set (Diffs dr))
       \<and> (\<forall>er. fst (RunProgressive L e (xs' @ j # ys') (xs @ j # ys) affected) = Inl er \<longrightarrow>
             (\<exists>j'\<in>set (xs @ ys). job_func L e j' = Failed er))"
proof -
  let ?err = "NotOnEitherRef (cpPath (cp j))"
  let ?w = "Warn ''skipping component due to build error'' (cpPath (cp j)) (env j) ?err"
  from assms(2,3) have bp: "buildPair e (FromComponentPath (cp j) (env j)) = Inl ?err"
    by (simp add: buildPair_def FromComponentPath_def)
  then have skip: "job_func L e j = Skipped ?w" by (rule job_func_Skipped)
  have "j \<in> set (xs @ j # ys)" by simp
  from Run_warns [OF assms(1) this skip]
  have warned: "?w \<in> set (snd (Run L e (xs @ j # ys) affected))" .
  have absent: "\<forall>dr. fst (Run L e (xs @ j # ys) affected) = Inr dr \<longrightarrow>
      cpPath (cp j) \<notin> Path ` set (Diffs dr)"
    using no_diff_for_failed_path [OF bp] by blast
  have fatal: "\<forall>er. fst (Run L e (xs @ j # ys) affected) = Inl er \<longrightarrow>
      (\<exists>j'\<in>set (xs @ ys). job_func L e j' = Failed er)"
  proof (intro allI impI)
    fix er assume "fst (Run L e (xs @ j # ys) affected) = Inl er"
    then have "fst (Run L e (xs @ ys) affected) = Inl er" by (simp add: Run_skip [OF skip])
    then have "first_failure L e (xs @ ys) = Some er"
      by (auto simp: Run_eq empty_result_def split: if_splits option.splits)
    then show "\<exists>j'\<in>set (xs @ ys). job_func L e j' = Failed er" by (rule first_failure_Some)
  qed
  have unsent: "\<forall>d. Send d \<in> set (snd (snd (RunProgressive L e (xs' @ j # ys') (xs @ j # ys) affected)))
      \<longrightarrow> Path d \<noteq> cpPath (cp j)"
  proof (intro allI impI)
    fix d
    assume "Send d \<in> set (snd (snd (RunProgressive L e (xs' @ j # ys') (xs @ j # ys) affected)))"
    then have "d \<in> set (diffed L e (xs' @ j # ys'))"
      by (auto simp: RunProgressive_eq split: if_splits option.splits)
    then obtain j' where j': "job_func L e j' = Diffed d" by (auto simp: set_diffed)
    show "Path d \<noteq> cpPath (cp j)"
    proof
      assume "Path d = cpPath (cp j)"
      with job_func_Diffed [OF j'] have same: "cpPath (cp j') = cpPath (cp j)"
        and ok: "\<exists>cd1. buildPair e (FromComponentPath (cp j') (env j')) = Inr cd1" by auto
      from buildPair_fresh_path [OF same bp] ok show False by auto
    qed
  qed
  have mem: "j \<in> set (xs @ j # ys)" by simp
  from RunProgressive_warns [OF assms(1) mem skip]
  have pwarned: "?w \<in> set (fst (snd (RunProgressive L e (xs' @ j # ys') (xs @ j # ys) affected)))" .
  have pabsent: "\<forall>dr. fst (RunProgressive L e (xs' @ j # ys') (xs @ j # ys) affected) = Inr dr \<longrightarrow>
      cpPath (cp j) \<notin> Path ` set (Diffs dr)"
    using no_progressive_diff_for_failed_path [OF bp] by blast
  have pfatal: "\<forall>er. fst (RunProgressive L e (xs' @ j # ys') (xs @ j # ys) affected) = Inl er \<longrightarrow>
      (\<exists>j'\<in>set (xs @ ys). job_func L e j' = Failed er)"
  proof (intro allI impI)
    fix er assume "fst (RunProgressive L e (xs' @ j # ys') (xs @ j # ys) affected) = Inl er"
    then have "fst (RunProgressive L e (xs' @ ys') (xs @ ys) affected) = Inl er"
      by (simp add: RunProgressive_skip [OF skip])
    then have "first_failure L e (xs @ ys) = Some er"
      by (auto simp: RunProgressive_eq empty_result_def split: if_splits option.splits)
    then show "\<exists>j'\<in>set (xs @ ys). job_func L e j' = Failed er" by (rule first_failure_Some)
  qed
  show ?thesis
    using bp skip warned absent fatal unsent pwarned pabsent pfatal
      Run_skip [OF skip] RunProgressive_skip [OF skip]
    by simp
qed

theorem missing_component_is_skipped_witness:
  "schedule_of (staging_only [''components/foo'', ''components/gone''])
     [staging_job ''components/foo'', staging_job ''components/gone'']
   \<and> DirExists (head missing_engine) ''components/gone'' = False
   \<and> DirExists (base missing_engine) ''components/gone'' = False
   \<and> buildPair missing_engine (FromComponentPath (cp (staging_job ''components/gone'')) ''staging'')
     = Inl (NotOnEitherRef ''components/gone'')
   \<and> Error (NotOnEitherRef ''components/gone'')
     = ''component components/gone does not exist on either ref''
   \<and> fst (Run changed_lib missing_engine
          [staging_job ''components/foo'', staging_job ''components/gone'']
          (staging_only [''components/foo'', ''components/gone'']))
     = fst (Run changed_lib missing_engine [staging_job ''components/foo'']
          (staging_only [''components/foo'', ''components/gone'']))
   \<and> RunProgressive changed_lib missing_engine
       [staging_job ''components/gone'', staging_job ''components/foo'']
       [staging_job ''components/foo'', staging_job ''components/gone'']
       (staging_only [''components/foo'', ''components/gone''])
     = (Inr \<lparr>Diffs = [\<lparr>Path = ''components/foo'', ClusterDir = [], Env = ''staging'',
                      BaseYAML = Some (''a: 2'' @ [NL]), HeadYAML = Some (''a: 1'' @ [NL]),
                      Diff = foo_diff, Added = 1, Removed = 1\<rparr>],
             TotalAdded = 1, TotalRemoved = 1\<rparr>,
        [Warn ''skipping component due to build error'' ''components/gone'' ''staging''
           (NotOnEitherRef ''components/gone'')],
        [Send \<lparr>Path = ''components/foo'', ClusterDir = [], Env = ''staging'',
               BaseYAML = Some (''a: 2'' @ [NL]), HeadYAML = Some (''a: 1'' @ [NL]),
               Diff = foo_diff, Added = 1, Removed = 1\<rparr>,
         Close])"
  using missing_component_is_skipped
    [of "staging_only [''components/foo'', ''components/gone'']"
        "[staging_job ''components/foo'']" "staging_job ''components/gone''" "[]"
        missing_engine changed_lib "[]" "[staging_job ''components/foo'']"]
  by (simp add: doubles engine_defs)


subsection \<open>The engine's parameters\<close>

text \<open>
  \<^verbatim>\<open>NewEngine\<close> replaces a concurrency that is not positive by the number of CPUs, and
  \<^verbatim>\<open>Run\<close> hands the value to \<^verbatim>\<open>g.SetLimit\<close>. How many jobs the errgroup then runs
  at a time is a property of its scheduler, which this model does not describe.
\<close>

lemma NewEngine_concurrency:
  "concurrency (NewEngine NumCPU h b c) = (if c \<le> 0 then NumCPU else c)
   \<and> head (NewEngine NumCPU h b c) = h \<and> base (NewEngine NumCPU h b c) = b"
  by (simp add: NewEngine_def)

lemma job_func_Diffed_iff:
  "job_func L e j = Diffed d \<longleftrightarrow>
     (\<exists>cd1. buildPair e (FromComponentPath (cp j) (env j)) = Inr cd1 \<and>
        computeDiff L cd1 = Inr d \<and> HasDiff d)"
  by (auto simp: job_func_def Let_def split: sum.splits if_splits)

subsection \<open>The result of a run\<close>

text \<open>
  C2, as stated, fails. In \<open>half_broken_engine\<close> the build of \<^verbatim>\<open>components/baz\<close>
  fails on base: this is a component with an error, and the \<^verbatim>\<open>Diffs\<close> of the
  successful run do not contain it.
\<close>

theorem errored_component_not_listed_counterexample:
  "buildPair half_broken_engine (FromComponentPath (cp (staging_job ''components/baz'')) ''staging'')
     = Inl (BuildingOnBase ''components/baz'' (External ''kustomize build failed''))
   \<and> fst (Run changed_lib half_broken_engine
          [staging_job ''components/foo'', staging_job ''components/baz'']
          (staging_only [''components/foo'', ''components/baz'']))
     = Inr \<lparr>Diffs = [\<lparr>Path = ''components/foo'', ClusterDir = [], Env = ''staging'',
                     BaseYAML = Some (''a: 2'' @ [NL]), HeadYAML = Some (''a: 1'' @ [NL]),
                     Diff = foo_diff, Added = 1, Removed = 1\<rparr>],
            TotalAdded = 1, TotalRemoved = 1\<rparr>"
  by (simp add: doubles engine_defs)

text \<open>
  C2, amended. For every schedule in which \<^verbatim>\<open>Run\<close> returns a result, \<^verbatim>\<open>Diffs\<close> holds
  exactly the records of the jobs that were built without error and have a non-empty
  \<^verbatim>\<open>Diff\<close>, each as often as its job occurs; a component whose build failed is not in
  it; and \<^verbatim>\<open>TotalAdded\<close> and \<^verbatim>\<open>TotalRemoved\<close> are the sums of \<^verbatim>\<open>Added\<close> and
  \<^verbatim>\<open>Removed\<close> over \<^verbatim>\<open>Diffs\<close>.
\<close>

theorem Run_result_contents:
  assumes "schedule_of affected sched" and "fst (Run L e sched affected) = Inr dr"
  shows "mset (Diffs dr) = mset (diffed L e (collect_jobs affected))
       \<and> set (Diffs dr) =
           {d. \<exists>j\<in>set (collect_jobs affected). \<exists>cd1.
                 buildPair e (FromComponentPath (cp j) (env j)) = Inr cd1 \<and>
                 computeDiff L cd1 = Inr d \<and> HasDiff d}
       \<and> (\<forall>j\<in>set (collect_jobs affected). \<forall>err.
             buildPair e (FromComponentPath (cp j) (env j)) = Inl err \<longrightarrow>
             cpPath (cp j) \<notin> Path ` set (Diffs dr))
       \<and> TotalAdded dr = sum_list (map Added (Diffs dr))
       \<and> TotalRemoved dr = sum_list (map Removed (Diffs dr))"
proof -
  from assms(1) have m: "mset (diffed L e sched) = mset (diffed L e (collect_jobs affected))"
    by (auto simp: schedule_of_def intro: mset_diffed_cong)
  have D: "Diffs dr = diffed L e sched"
    and A: "TotalAdded dr = sum_list (map Added (Diffs dr))"
    and R: "TotalRemoved dr = sum_list (map Removed (Diffs dr))"
    using assms m
    by (auto simp: Run_eq empty_result_def schedule_of_def split: if_splits option.splits)
  from D m have M: "mset (Diffs dr) = mset (diffed L e (collect_jobs affected))" by simp
  then have "set (Diffs dr) = set (diffed L e (collect_jobs affected))"
    by (metis set_mset_mset)
  then have S: "set (Diffs dr) =
           {d. \<exists>j\<in>set (collect_jobs affected). \<exists>cd1.
                 buildPair e (FromComponentPath (cp j) (env j)) = Inr cd1 \<and>
                 computeDiff L cd1 = Inr d \<and> HasDiff d}"
    by (simp add: set_diffed job_func_Diffed_iff)
  have E: "\<forall>j\<in>set (collect_jobs affected). \<forall>err.
             buildPair e (FromComponentPath (cp j) (env j)) = Inl err \<longrightarrow>
             cpPath (cp j) \<notin> Path ` set (Diffs dr)"
    using no_diff_for_failed_path [OF _ assms(2)] by blast
  from M S E A R show ?thesis by blast
qed

theorem Run_result_contents_witness:
  "schedule_of (staging_only [''components/foo'', ''components/baz'', ''components/bar''])
     [staging_job ''components/bar'', staging_job ''components/baz'', staging_job ''components/foo'']
   \<and> fst (Run changed_lib half_broken_engine
          [staging_job ''components/bar'', staging_job ''components/baz'', staging_job ''components/foo'']
          (staging_only [''components/foo'', ''components/baz'', ''components/bar'']))
     = Inr \<lparr>Diffs = [\<lparr>Path = ''components/foo'', ClusterDir = [], Env = ''staging'',
                     BaseYAML = Some (''a: 2'' @ [NL]), HeadYAML = Some (''a: 1'' @ [NL]),
                     Diff = foo_diff, Added = 1, Removed = 1\<rparr>],
            TotalAdded = 1, TotalRemoved = 1\<rparr>
   \<and> diffed changed_lib half_broken_engine
        (collect_jobs (staging_only [''components/foo'', ''components/baz'', ''components/bar'']))
     = [\<lparr>Path = ''components/foo'', ClusterDir = [], Env = ''staging'',
         BaseYAML = Some (''a: 2'' @ [NL]), HeadYAML = Some (''a: 1'' @ [NL]),
         Diff = foo_diff, Added = 1, Removed = 1\<rparr>]"
  using Run_result_contents
    [of "staging_only [''components/foo'', ''components/baz'', ''components/bar'']"
        "[staging_job ''components/bar'', staging_job ''components/baz'', staging_job ''components/foo'']"
        changed_lib half_broken_engine
        "\<lparr>Diffs = [\<lparr>Path = ''components/foo'', ClusterDir = [], Env = ''staging'',
                     BaseYAML = Some (''a: 2'' @ [NL]), HeadYAML = Some (''a: 1'' @ [NL]),
                     Diff = foo_diff, Added = 1, Removed = 1\<rparr>],
            TotalAdded = 1, TotalRemoved = 1\<rparr>"]
  by (simp add: doubles engine_defs)


subsection \<open>Components on one ref only\<close>

lemma head_only_job:
  assumes "DirExists (head e) (cpPath (cp j))" and "\<not> DirExists (base e) (cpPath (cp j))"
    and "BuildKustomization (head e) (cpPath (cp j)) = Inr (Some y)" and "y \<noteq> []"
    and "GetUnifiedDiffString L
           \<lparr>SeqA = SplitLines L [], SeqB = SplitLines L y,
            FromFile = cpPath (cp j) @ '' (base)'', ToFile = cpPath (cp j) @ '' (head)'',
            Context = 3\<rparr> = Inr t"
    and "t \<noteq> []"
  shows "job_func L e j =
           Diffed \<lparr>Path = cpPath (cp j), ClusterDir = cpClusterDir (cp j), Env = env j,
                   BaseYAML = None, HeadYAML = Some y, Diff = t,
                   Added = fst (countStats t), Removed = snd (countStats t)\<rparr>"
  using assms
  by (simp add: job_func_def buildPair_def computeDiff_def FromComponentPath_def HasDiff_def
        split: prod.splits)

lemma base_only_job:
  assumes "\<not> DirExists (head e) (cpPath (cp j))" and "DirExists (base e) (cpPath (cp j))"
    and "BuildKustomization (base e) (cpPath (cp j)) = Inr (Some y)" and "y \<noteq> []"
    and "GetUnifiedDiffString L
           \<lparr>SeqA = SplitLines L y, SeqB = SplitLines L [],
            FromFile = cpPath (cp j) @ '' (base)'', ToFile = cpPath (cp j) @ '' (head)'',
            Context = 3\<rparr> = Inr t"
    and "t \<noteq> []"
  shows "job_func L e j =
           Diffed \<lparr>Path = cpPath (cp j), ClusterDir = cpClusterDir (cp j), Env = env j,
                   BaseYAML = Some y, HeadYAML = None, Diff = t,
                   Added = fst (countStats t), Removed = snd (countStats t)\<rparr>"
  using assms
  by (simp add: job_func_def buildPair_def computeDiff_def FromComponentPath_def HasDiff_def
        split: prod.splits)

lemma countStats_bar_diff: "countStats bar_diff = (1, 0)"
  by (simp add: bar_diff_def countStats_def HasPrefix_def)

text \<open>
  C8, as stated, fails. In \<open>empty_head_engine\<close> the component exists on HEAD only;
  \<^verbatim>\<open>buildPair\<close> leaves \<^verbatim>\<open>BaseYAML\<close> nil and sets \<^verbatim>\<open>HeadYAML\<close> to the empty
  rendering. The two convert to the same string, no diff is computed, and the result does
  not contain the component.
\<close>

theorem empty_head_only_component_counterexample:
  "DirExists (head empty_head_engine) ''components/new''
   \<and> DirExists (base empty_head_engine) ''components/new'' = False
   \<and> buildPair empty_head_engine (FromComponentPath (cp (staging_job ''components/new'')) ''staging'')
     = Inr \<lparr>Path = ''components/new'', ClusterDir = [], Env = ''staging'',
            BaseYAML = None, HeadYAML = Some [], Diff = [], Added = 0, Removed = 0\<rparr>
   \<and> Run changed_lib empty_head_engine [staging_job ''components/new'']
       (staging_only [''components/new''])
     = (Inr \<lparr>Diffs = [], TotalAdded = 0, TotalRemoved = 0\<rparr>, [])"
  by (simp add: doubles engine_defs)

text \<open>
  C8, amended. Take a run that returns a result, and a job of it whose component exists
  on HEAD only and renders there to a text \<open>y\<close> that is not empty. The library is asked
  for the diff of the empty string against \<open>y\<close>, labelled with the path; when it
  answers with a text \<open>t\<close> that is not empty, the result contains the component
  with \<^verbatim>\<open>BaseYAML\<close> nil, \<^verbatim>\<open>HeadYAML\<close> = \<open>y\<close>, \<^verbatim>\<open>Diff\<close> = \<open>t\<close> and the counters of
  \<open>t\<close>. The same holds with the sides exchanged for a component on base only. In the
  scenario of the specification (\<^verbatim>\<open>components/bar\<close>, HEAD renders \<^verbatim>\<open>x: y\<close>), with the
  library answering \<open>bar_diff\<close>, the record has a non-empty \<^verbatim>\<open>Diff\<close>, \<^verbatim>\<open>Added\<close> = 1
  and \<^verbatim>\<open>Removed\<close> = 0.
\<close>

theorem one_sided_component:
  assumes "schedule_of affected sched" and "j \<in> set sched"
    and "fst (Run L e sched affected) = Inr dr"
  shows "(DirExists (head e) (cpPath (cp j)) \<and> \<not> DirExists (base e) (cpPath (cp j)) \<and>
          BuildKustomization (head e) (cpPath (cp j)) = Inr (Some y) \<and> y \<noteq> [] \<and>
          GetUnifiedDiffString L
            \<lparr>SeqA = SplitLines L [], SeqB = SplitLines L y,
             FromFile = cpPath (cp j) @ '' (base)'', ToFile = cpPath (cp j) @ '' (head)'',
             Context = 3\<rparr> = Inr t \<and> t \<noteq> []
          \<longrightarrow> \<lparr>Path = cpPath (cp j), ClusterDir = cpClusterDir (cp j), Env = env j,
                BaseYAML = None, HeadYAML = Some y, Diff = t,
                Added = fst (countStats t), Removed = snd (countStats t)\<rparr> \<in> set (Diffs dr))
       \<and> (\<not> DirExists (head e) (cpPath (cp j)) \<and> DirExists (base e) (cpPath (cp j)) \<and>
          BuildKustomization (base e) (cpPath (cp j)) = Inr (Some y) \<and> y \<noteq> [] \<and>
          GetUnifiedDiffString L
            \<lparr>SeqA = SplitLines L y, SeqB = SplitLines L [],
             FromFile = cpPath (cp j) @ '' (base)'', ToFile = cpPath (cp j) @ '' (head)'',
             Context = 3\<rparr> = Inr t \<and> t \<noteq> []
          \<longrightarrow> \<lparr>Path = cpPath (cp j), ClusterDir = cpClusterDir (cp j), Env = env j,
                BaseYAML = Some y, HeadYAML = None, Diff = t,
                Added = fst (countStats t), Removed = snd (countStats t)\<rparr> \<in> set (Diffs dr))
       \<and> (cpPath (cp j) = ''components/bar'' \<and>
          \<not> DirExists (base e) ''components/bar'' \<and> DirExists (head e) ''components/bar'' \<and>
          BuildKustomization (head e) ''components/bar'' = Inr (Some (''x: y'' @ [NL])) \<and>
          GetUnifiedDiffString L
            \<lparr>SeqA = SplitLines L [], SeqB = SplitLines L (''x: y'' @ [NL]),
             FromFile = ''components/bar (base)'', ToFile = ''components/bar (head)'',
             Context = 3\<rparr> = Inr bar_diff
          \<longrightarrow> (\<exists>d\<in>set (Diffs dr). Path d = ''components/bar'' \<and> Env d = env j \<and>
                 BaseYAML d = None \<and> HeadYAML d = Some (''x: y'' @ [NL]) \<and>
                 Diff d \<noteq> [] \<and> Added d = 1 \<and> Removed d = 0))"
proof (intro conjI impI)
  assume h: "DirExists (head e) (cpPath (cp j)) \<and> \<not> DirExists (base e) (cpPath (cp j)) \<and>
          BuildKustomization (head e) (cpPath (cp j)) = Inr (Some y) \<and> y \<noteq> [] \<and>
          GetUnifiedDiffString L
            \<lparr>SeqA = SplitLines L [], SeqB = SplitLines L y,
             FromFile = cpPath (cp j) @ '' (base)'', ToFile = cpPath (cp j) @ '' (head)'',
             Context = 3\<rparr> = Inr t \<and> t \<noteq> []"
  then have "job_func L e j =
           Diffed \<lparr>Path = cpPath (cp j), ClusterDir = cpClusterDir (cp j), Env = env j,
                   BaseYAML = None, HeadYAML = Some y, Diff = t,
                   Added = fst (countStats t), Removed = snd (countStats t)\<rparr>"
    by (intro head_only_job) simp_all
  from Run_Diffs_has_job [OF assms(1,3,2) this]
  show "\<lparr>Path = cpPath (cp j), ClusterDir = cpClusterDir (cp j), Env = env j,
                BaseYAML = None, HeadYAML = Some y, Diff = t,
                Added = fst (countStats t), Removed = snd (countStats t)\<rparr> \<in> set (Diffs dr)" .
next
  assume h: "\<not> DirExists (head e) (cpPath (cp j)) \<and> DirExists (base e) (cpPath (cp j)) \<and>
          BuildKustomization (base e) (cpPath (cp j)) = Inr (Some y) \<and> y \<noteq> [] \<and>
          GetUnifiedDiffString L
            \<lparr>SeqA = SplitLines L y, SeqB = SplitLines L [],
             FromFile = cpPath (cp j) @ '' (base)'', ToFile = cpPath (cp j) @ '' (head)'',
             Context = 3\<rparr> = Inr t \<and> t \<noteq> []"
  then have "job_func L e j =
           Diffed \<lparr>Path = cpPath (cp j), ClusterDir = cpClusterDir (cp j), Env = env j,
                   BaseYAML = Some y, HeadYAML = None, Diff = t,
                   Added = fst (countStats t), Removed = snd (countStats t)\<rparr>"
    by (intro base_only_job) simp_all
  from Run_Diffs_has_job [OF assms(1,3,2) this]
  show "\<lparr>Path = cpPath (cp j), ClusterDir = cpClusterDir (cp j), Env = env j,
                BaseYAML = Some y, HeadYAML = None, Diff = t,
                Added = fst (countStats t), Removed = snd (countStats t)\<rparr> \<in> set (Diffs dr)" .
next
  assume h: "cpPath (cp j) = ''components/bar'' \<and>
          \<not> DirExists (base e) ''components/bar'' \<and> DirExists (head e) ''components/bar'' \<and>
          BuildKustomization (head e) ''components/bar'' = Inr (Some (''x: y'' @ [NL])) \<and>
          GetUnifiedDiffString L
            \<lparr>SeqA = SplitLines L [], SeqB = SplitLines L (''x: y'' @ [NL]),
             FromFile = ''components/bar (base)'', ToFile = ''components/bar (head)'',
             Context = 3\<rparr> = Inr bar_diff"
  have ne: "bar_diff \<noteq> []" by (simp add: bar_diff_def)
  from h ne have "job_func L e j =
           Diffed \<lparr>Path = cpPath (cp j), ClusterDir = cpClusterDir (cp j), Env = env j,
                   BaseYAML = None, HeadYAML = Some (''x: y'' @ [NL]), Diff = bar_diff,
                   Added = fst (countStats bar_diff), Removed = snd (countStats bar_diff)\<rparr>"
    by (intro head_only_job) simp_all
  from Run_Diffs_has_job [OF assms(1,3,2) this] h ne
  show "\<exists>d\<in>set (Diffs dr). Path d = ''components/bar'' \<and> Env d = env j \<and>
                 BaseYAML d = None \<and> HeadYAML d = Some (''x: y'' @ [NL]) \<and>
                 Diff d \<noteq> [] \<and> Added d = 1 \<and> Removed d = 0"
    by (auto simp: countStats_bar_diff intro!: bexI)
qed

theorem one_sided_component_witness:
  "schedule_of (staging_only [''components/bar'', ''components/old''])
     [staging_job ''components/old'', staging_job ''components/bar'']
   \<and> DirExists (base changed_engine) ''components/bar'' = False
   \<and> DirExists (head changed_engine) ''components/bar''
   \<and> BuildKustomization (head changed_engine) ''components/bar'' = Inr (Some (''x: y'' @ [NL]))
   \<and> DirExists (head changed_engine) ''components/old'' = False
   \<and> BuildKustomization (base changed_engine) ''components/old'' = Inr (Some (''k: v'' @ [NL]))
   \<and> Run changed_lib changed_engine
       [staging_job ''components/old'', staging_job ''components/bar'']
       (staging_only [''components/bar'', ''components/old''])
     = (Inr \<lparr>Diffs = [\<lparr>Path = ''components/old'', ClusterDir = [], Env = ''staging'',
                      BaseYAML = Some (''k: v'' @ [NL]), HeadYAML = None,
                      Diff = old_diff, Added = 0, Removed = 1\<rparr>,
                     \<lparr>Path = ''components/bar'', ClusterDir = [], Env = ''staging'',
                      BaseYAML = None, HeadYAML = Some (''x: y'' @ [NL]),
                      Diff = bar_diff, Added = 1, Removed = 0\<rparr>],
             TotalAdded = 1, TotalRemoved = 1\<rparr>, [])"
  using one_sided_component
    [of "staging_only [''components/bar'', ''components/old'']"
        "[staging_job ''components/old'', staging_job ''components/bar'']"
        "staging_job ''components/bar''" changed_lib changed_engine
        "\<lparr>Diffs = [\<lparr>Path = ''components/old'', ClusterDir = [], Env = ''staging'',
                      BaseYAML = Some (''k: v'' @ [NL]), HeadYAML = None,
                      Diff = old_diff, Added = 0, Removed = 1\<rparr>,
                     \<lparr>Path = ''components/bar'', ClusterDir = [], Env = ''staging'',
                      BaseYAML = None, HeadYAML = Some (''x: y'' @ [NL]),
                      Diff = bar_diff, Added = 1, Removed = 0\<rparr>],
             TotalAdded = 1, TotalRemoved = 1\<rparr>" "''x: y'' @ [NL]" bar_diff]
  by (simp add: doubles engine_defs)

end
